theory Spec2Isabelle
  imports Main "HOL-Library.AList"
begin

section \<open>The python2 runtime server of qinling (runtimes/python2/server.py)\<close>

text \<open>
  The runtime is a small HTTP server. Its \<open>/execute\<close> handler downloads the function
  package through a sidecar, optionally builds a keystone session, runs the user's function
  in a child process (\<open>_invoke_function\<close>) and answers with a JSON document holding
  \<open>output\<close>, \<open>duration\<close>, \<open>logs\<close> and \<open>success\<close>.

  The embedding is shallow: every Python function is a HOL function of the same name.
  Exceptions are values of the type \<open>error\<close>; the file system, and the calls made to
  collaborators and to user code, are carried in an explicit \<open>world\<close>; the sidecars, the
  process id, the clock and the user's package are the fields of an environment \<open>env\<close>.
\<close>

subsection \<open>Python values\<close>

text \<open>
  \<open>generic.Password(username, password, auth_url, trust_id, user_domain_name)\<close> and
  \<open>session.Session(auth, verify)\<close>. Building them contacts no server; the fields are
  what the handler passes.
\<close>

datatype password_plugin =
  Password (pw_username: "string option") (pw_password: "string option")
    (pw_auth_url: string) (pw_trust_id: "string option") (pw_user_domain_name: string)

datatype session = Session (auth: password_plugin) (verify: bool)

text \<open>
  The values that travel through the handler: what \<open>json\<close> decodes (floats left out),
  and the session object placed under \<open>context\<close>. A dict is an association list; the
  dicts of the program have one entry per key, and \<open>map_of\<close>, \<open>AList.update\<close> and
  \<open>AList.delete\<close> are the lookup, the store and the removal of Python's dict on them.
\<close>

datatype pyval =
  PNone
| PBool bool
| PInt int
| PStr string
| PList "pyval list"
| PDict "(string \<times> pyval) list"
| PSession session

text \<open>Python's truth value of an object, as \<open>if x:\<close> and \<open>x or y\<close> test it.\<close>

fun truthy :: "pyval \<Rightarrow> bool" where
  "truthy PNone = False"
| "truthy (PBool b) = b"
| "truthy (PInt i) = (i \<noteq> 0)"
| "truthy (PStr s) = (s \<noteq> [])"
| "truthy (PList xs) = (xs \<noteq> [])"
| "truthy (PDict kvs) = (kvs \<noteq> [])"
| "truthy (PSession s) = True"

text \<open>The same test on a string field of the request that may be missing (\<open>None\<close>).\<close>

fun truthy_str :: "string option \<Rightarrow> bool" where
  "truthy_str None = False"
| "truthy_str (Some s) = (s \<noteq> [])"

text \<open>\<open>'%s' % x\<close> for a string that may be \<open>None\<close>.\<close>

fun format_s :: "string option \<Rightarrow> string" where
  "format_s None = ''None''"
| "format_s (Some s) = s"

text \<open>\<open>sub in s\<close> on strings: \<open>sub\<close> occurs in \<open>s\<close> as a contiguous run.\<close>

fun starts_with :: "string \<Rightarrow> string \<Rightarrow> bool" where
  "starts_with [] s = True"
| "starts_with (c # cs) [] = False"
| "starts_with (c # cs) (d # ds) = (c = d \<and> starts_with cs ds)"

fun str_contains :: "string \<Rightarrow> string \<Rightarrow> bool" where
  "str_contains sub [] = (sub = [])"
| "str_contains sub (d # ds) = (starts_with sub (d # ds) \<or> str_contains sub ds)"

text \<open>
  \<open>s.rsplit(sep, 1)\<close> for a one-character separator: no separator gives \<open>[s]\<close>,
  otherwise the text before the last separator and the text after it.
\<close>

definition rsplit1 :: "char \<Rightarrow> string \<Rightarrow> string list" where
  "rsplit1 sep s =
     (let r = rev s;
          tail = takeWhile (\<lambda>c. c \<noteq> sep) r;
          rest = dropWhile (\<lambda>c. c \<noteq> sep) r
      in case rest of
           [] \<Rightarrow> [s]
         | _ # front \<Rightarrow> [rev front, rev tail])"

subsection \<open>Exceptions, the world and the environment\<close>

text \<open>The exceptions the handler itself lets escape.\<close>

datatype error =
  KeyError string
| ValueError
| IOError string

text \<open>
  An instance of Python's \<open>Exception\<close> raised inside the \<open>try\<close> block of
  \<open>_invoke_function\<close>: whether it is an \<open>OSError\<close>, its \<open>str\<close>, and the text
  \<open>traceback.format_exception\<close> gives for it.
\<close>

datatype py_exception =
  PyException (is_oserror: bool) (exc_str: string) (exc_trace: string)

text \<open>
  How the \<open>try\<close> block (import the module, look the function up, call it) ends:
  it returns a value, raises an \<open>Exception\<close>, raises \<open>SystemExit\<close> with an integer
  code (not an \<open>Exception\<close>, so the \<open>except\<close> clause lets it pass), or the process
  ends there without running anything more of the child: a signal (the kernel's OOM kill
  is reported as \<open>-9\<close>) or \<open>os._exit\<close>, with the exit code the parent reads.
\<close>

datatype user_outcome =
  Returned pyval
| Raised py_exception
| Exited int
| Killed int

text \<open>
  What user code has done to \<open>sys.stdout\<close> when the \<open>try\<close> block ends: left it on the
  log, closed it (a later \<open>print\<close> raises), or put another stream in its place (a
  later \<open>print\<close> succeeds and the log gets nothing).
\<close>

datatype stdout_state =
  StdoutLog
| StdoutClosed
| StdoutElsewhere

text \<open>
  A run of user code: the text it sent to the log, the state it leaves \<open>sys.stdout\<close>
  in, and how it ends. User code is taken to reach the log through \<open>sys.stdout\<close> only
  and to leave the limits of \<open>_set_ulimit\<close> as they are.
\<close>

record behaviour =
  printed :: string
  stdout_after :: stdout_state
  outcome :: user_outcome

record http_resp =
  ok :: bool
  content :: string

text \<open>The limits of the request; each is a number, or \<open>None\<close> for a JSON \<open>null\<close>.\<close>

record rlimit =
  cpu :: "int option"
  memory_size :: "int option"

text \<open>
  What the program asks of its surroundings: the two sidecars (\<open>localhost:9091/download\<close>
  with download_url, function_id and token; \<open>localhost:9092/cglimit\<close> with cpu,
  memory_size and pid), \<open>os.getpid()\<close> in the child, whether the child can create a
  file of a given name, the user's package (directory, module, function name, positional
  arguments, keyword arguments) and the rounded wall-clock time of the child in
  milliseconds.
\<close>

record env =
  download :: "string option \<Rightarrow> string option \<Rightarrow> string option \<Rightarrow> http_resp"
  cglimit :: "int option \<Rightarrow> int option \<Rightarrow> nat \<Rightarrow> http_resp"
  getpid :: nat
  can_open :: "string \<Rightarrow> bool"
  user_code :: "string \<Rightarrow> string \<Rightarrow> string \<Rightarrow> pyval list \<Rightarrow> (string \<times> pyval) list \<Rightarrow> behaviour"
  elapsed :: nat

text \<open>The calls that leave the handler and the child, in the order they are made.\<close>

datatype effect =
  Download "string option" "string option" "string option"
| BuildSession session
| Spawn
| SetUlimit
| CgLimit "int option" "int option" nat
| Invoke string string string "pyval list" "(string \<times> pyval) list"

record world =
  files :: "string \<rightharpoonup> string"
  effects :: "effect list"

definition emit :: "effect \<Rightarrow> world \<Rightarrow> world" where
  "emit e w = w\<lparr>effects := effects w @ [e]\<rparr>"

text \<open>
  \<open>RLIMIT_FSIZE\<close> of \<open>_set_ulimit\<close>: the largest size, in bytes, of a file the child
  writes.
\<close>

definition FSIZE :: nat where
  "FSIZE = 61440"

text \<open>\<open>open(name, "w", 0)\<close> creates or truncates; an unbuffered write appends at once.\<close>

definition open_w :: "string \<Rightarrow> world \<Rightarrow> world" where
  "open_w name w = w\<lparr>files := (files w)(name \<mapsto> [])\<rparr>"

text \<open>
  A write by the child. The file takes what fits under the size limit; the write raises
  (the result is \<open>False\<close>) when not all of the text fits.
\<close>

definition write_file :: "string \<Rightarrow> string \<Rightarrow> world \<Rightarrow> bool \<times> world" where
  "write_file name s w =
     (let new = (case files w name of None \<Rightarrow> s | Some old \<Rightarrow> old @ s)
      in (length new \<le> FSIZE, w\<lparr>files := (files w)(name \<mapsto> take FSIZE new)\<rparr>))"

text \<open>\<open>os.remove(name)\<close> of a file that is there.\<close>

definition remove_file :: "string \<Rightarrow> world \<Rightarrow> world" where
  "remove_file name w = w\<lparr>files := fun_upd (files w) name None\<rparr>"

text \<open>
  \<open>print(s)\<close> in the child, whose \<open>sys.stdout\<close> was set to the file: the text and a
  newline. The result is \<open>False\<close> when the \<open>print\<close> raises.
\<close>

definition print_to :: "stdout_state \<Rightarrow> string \<Rightarrow> string \<Rightarrow> world \<Rightarrow> bool \<times> world" where
  "print_to out name s w =
     (case out of
        StdoutLog \<Rightarrow> write_file name (s @ [CHR 0x0A]) w
      | StdoutClosed \<Rightarrow> (False, w)
      | StdoutElsewhere \<Rightarrow> (True, w))"

subsection \<open>The child process: \<open>_invoke_function\<close>\<close>

definition INVOKE_ERROR :: string where
  "INVOKE_ERROR = ''Function execution failed because of too much resource consumption''"

text \<open>
  The dict shared with the parent through the manager. The parent stores \<open>success\<close>
  before the child starts, so that key is always there; \<open>result\<close> may be missing.
\<close>

record return_dict =
  rd_result :: "pyval option"
  rd_success :: bool

text \<open>The three texts made from the execution id with \<open>%s\<close>; the id may be \<open>None\<close>.\<close>

definition log_name :: "string option \<Rightarrow> string" where
  "log_name execution_id = format_s execution_id @ ''.out''"

definition start_line :: "string option \<Rightarrow> string" where
  "start_line execution_id = ''Start execution: '' @ format_s execution_id"

definition finished_line :: "string option \<Rightarrow> string" where
  "finished_line execution_id = ''Finished execution: '' @ format_s execution_id"

text \<open>
  The result is the exit code the parent reads, the shared dict and the world the child
  leaves.
  \<^item> \<open>sys.exit(0)\<close> on a refusal of the limiter comes before the log is opened.
  \<^item> An \<open>open\<close> of the log or a \<open>print\<close> of the start line that raises is outside the
    \<open>try\<close> statement: the child ends with exit code 1 and user code is not called.
  \<^item> Inside the \<open>try\<close> statement the \<open>finally\<close> clause runs on every way out. A
    \<open>print\<close> that raises there, or in \<open>_print_trace\<close>, leaves the child with an
    exception nobody catches: exit code 1. What was stored in the shared dict before
    stays stored.
  \<^item> \<open>sys.exit(1)\<close> of the \<open>except\<close> clause gives exit code 1; a \<open>SystemExit\<close> of the
    user's with code \<open>c\<close> gives the exit status \<open>c mod 256\<close>.
\<close>

definition invoke_function ::
  "env \<Rightarrow> string option \<Rightarrow> string \<Rightarrow> string \<Rightarrow> string \<Rightarrow> pyval \<Rightarrow> (string \<times> pyval) list \<Rightarrow>
   return_dict \<Rightarrow> rlimit \<Rightarrow> world \<Rightarrow> int \<times> return_dict \<times> world" where
  "invoke_function e execution_id zip_file_dir module_name function_method arg input_kw
       rd rl w =
     (let w1 = emit SetUlimit w;
          pid = getpid e;
          root_resp = cglimit e (cpu rl) (memory_size rl) pid;
          w2 = emit (CgLimit (cpu rl) (memory_size rl) pid) w1;
          out = log_name execution_id
      in if \<not> ok root_resp then
           (0, rd\<lparr>rd_result := Some (PStr (content root_resp)), rd_success := False\<rparr>, w2)
         else if \<not> can_open e out then (1, rd, w2)
         else
           let (started, w3) = print_to StdoutLog out (start_line execution_id) (open_w out w2)
           in if \<not> started then (1, rd, w3)
              else
                let args = (if truthy arg then [arg] else []);
                    b = user_code e zip_file_dir module_name function_method args input_kw;
                    w4 = snd (write_file out (printed b)
                           (emit (Invoke zip_file_dir module_name function_method args input_kw) w3));
                    so = stdout_after b
                in case outcome b of
                     Returned v \<Rightarrow>
                       let rd1 = rd\<lparr>rd_result := Some v, rd_success := True\<rparr>;
                           (finished, w5) = print_to so out (finished_line execution_id) w4
                       in (if finished then 0 else 1, rd1, w5)
                   | Raised ex \<Rightarrow>
                       let (traced, w5) = print_to so out (exc_trace ex) w4
                       in if \<not> traced then
                            (1, rd, snd (print_to so out (finished_line execution_id) w5))
                          else if is_oserror ex \<and> str_contains ''Resource'' (exc_str ex) then
                            (1, rd, snd (print_to so out (finished_line execution_id) w5))
                          else
                            let rd1 = rd\<lparr>rd_result := Some (PStr (exc_str ex)),
                                         rd_success := False\<rparr>;
                                (finished, w6) = print_to so out (finished_line execution_id) w5
                            in (if finished then 0 else 1, rd1, w6)
                   | Exited c \<Rightarrow>
                       let (finished, w5) = print_to so out (finished_line execution_id) w4
                       in (if finished then c mod 256 else 1, rd, w5)
                   | Killed c \<Rightarrow> (c, rd, w4))"

subsection \<open>The handler: \<open>execute\<close>\<close>

text \<open>
  The JSON body of the request, with the types the handler uses each key at. A key
  read with \<open>params.get\<close> is \<open>None\<close> when it is missing or \<open>null\<close>. The three keys
  read with \<open>params[...]\<close> are \<open>None\<close> when missing, which raises \<open>KeyError\<close>, and
  \<open>Some None\<close> when \<open>null\<close>, which the handler takes as the value \<open>None\<close>.
\<close>

record params =
  p_input :: "(string \<times> pyval) list option"
  p_execution_id :: "string option option"
  p_download_url :: "string option"
  p_function_id :: "string option"
  p_entry :: "string option"
  p_request_id :: "string option"
  p_trust_id :: "string option"
  p_auth_url :: "string option"
  p_username :: "string option"
  p_password :: "string option"
  p_token :: "string option"
  p_cpu :: "int option option"
  p_memory_size :: "int option option"

record response =
  r_output :: pyval
  r_duration :: nat
  r_logs :: string
  r_success :: bool
  r_status :: nat

definition get_responce :: "pyval \<Rightarrow> nat \<Rightarrow> string \<Rightarrow> bool \<Rightarrow> nat \<Rightarrow> response" where
  "get_responce out d l s c = \<lparr>r_output = out, r_duration = d, r_logs = l, r_success = s, r_status = c\<rparr>"

text \<open>
  Lines 155 to 157: \<open>main.main\<close> unless \<open>entry\<close> is a non-empty string, which is split
  at its last dot; unpacking a list of one element into two names raises \<open>ValueError\<close>.
\<close>

definition resolve_entry :: "string option \<Rightarrow> error + (string \<times> string)" where
  "resolve_entry entry =
     (if truthy_str entry then
        (case rsplit1 (CHR ''.'') (format_s entry) of
           [m, f] \<Rightarrow> Inr (m, f)
         | _ \<Rightarrow> Inl ValueError)
      else Inr (''main'', ''main''))"

text \<open>What lines 138 to 157 read from the body before any collaborator is called.\<close>

record request =
  execution_id :: "string option"
  zip_file_dir :: string
  limits :: rlimit
  function_module :: string
  function_method :: string
  input0 :: "(string \<times> pyval) list"

definition parse_request :: "params \<Rightarrow> error + request" where
  "parse_request p =
     (let inp = (case p_input p of None \<Rightarrow> [] | Some d \<Rightarrow> if d = [] then [] else d)
      in case p_execution_id p of
           None \<Rightarrow> Inl (KeyError ''execution_id'')
         | Some eid \<Rightarrow>
        (case p_cpu p of
           None \<Rightarrow> Inl (KeyError ''cpu'')
         | Some c \<Rightarrow>
        (case p_memory_size p of
           None \<Rightarrow> Inl (KeyError ''memory_size'')
         | Some m \<Rightarrow>
        (case resolve_entry (p_entry p) of
           Inl err \<Rightarrow> Inl err
         | Inr (fm, ff) \<Rightarrow>
             Inr \<lparr>execution_id = eid,
                  zip_file_dir = ''/var/qinling/packages/'' @ format_s (p_function_id p),
                  limits = \<lparr>cpu = c, memory_size = m\<rparr>,
                  function_module = fm,
                  function_method = ff,
                  input0 = inp\<rparr>))))"

text \<open>
  Lines 187 to 197: the session, built only for a non-empty \<open>auth_url\<close>, and the
  \<open>context\<close> entry, stored in the input in both cases.
\<close>

definition os_session :: "params \<Rightarrow> pyval" where
  "os_session p =
     (if truthy_str (p_auth_url p) then
        PSession (Session (Password (p_username p) (p_password p) (format_s (p_auth_url p))
                             (p_trust_id p) ''Default'') False)
      else PNone)"

definition provide_session :: "params \<Rightarrow> (string \<times> pyval) list \<Rightarrow> world \<Rightarrow> (string \<times> pyval) list \<times> world" where
  "provide_session p inp w =
     (AList.update ''context'' (PDict [(''os_session'', os_session p)]) inp,
      (case os_session p of PSession s \<Rightarrow> emit (BuildSession s) w | _ \<Rightarrow> w))"

text \<open>\<open>d.pop(key, None)\<close>: the value removed, or \<open>None\<close>, and the dict without the key.\<close>

definition dict_pop :: "string \<Rightarrow> (string \<times> pyval) list \<Rightarrow> pyval \<times> (string \<times> pyval) list" where
  "dict_pop k d = ((case map_of d k of None \<Rightarrow> PNone | Some v \<Rightarrow> v), AList.delete k d)"

text \<open>
  Lines 204 to 216: the shared dict with \<open>success\<close> set to \<open>False\<close>, the child started
  on \<open>_invoke_function\<close> and joined.
\<close>

definition run_process :: "env \<Rightarrow> request \<Rightarrow> (string \<times> pyval) list \<Rightarrow> world \<Rightarrow> int \<times> return_dict \<times> world" where
  "run_process e q inp w =
     (let rd = \<lparr>rd_result = None, rd_success = False\<rparr>;
          (arg, kw) = dict_pop ''__function_input'' inp
      in invoke_function e (execution_id q) (zip_file_dir q) (function_module q)
           (function_method q) arg kw rd (limits q) (emit Spawn w))"

text \<open>Lines 225 to 231: \<open>return_dict.get('result')\<close> is \<open>None\<close> for a missing key.\<close>

definition classify :: "int \<Rightarrow> return_dict \<Rightarrow> pyval \<times> bool" where
  "classify exitcode rd =
     (if exitcode \<noteq> 0 then (PStr INVOKE_ERROR, False)
      else ((case rd_result rd of None \<Rightarrow> PNone | Some v \<Rightarrow> v), rd_success rd))"

text \<open>
  The handler. Its own \<open>print\<close> of the request goes to the server's standard output
  and is left out; \<open>json.dumps\<close> of the answer is taken to succeed. Opening a log that
  is not there raises \<open>IOError\<close>, and the handler then returns no answer of its own.
\<close>

definition execute :: "env \<Rightarrow> params \<Rightarrow> world \<Rightarrow> (error + response) \<times> world" where
  "execute e p w =
     (case parse_request p of
        Inl err \<Rightarrow> (Inl err, w)
      | Inr q \<Rightarrow>
          let resp = download e (p_download_url p) (p_function_id p) (p_token p);
              w1 = emit (Download (p_download_url p) (p_function_id p) (p_token p)) w
          in if \<not> ok resp then
               (Inr (get_responce (PStr (content resp)) 0 [] False 500), w1)
             else
               let (inp, w2) = provide_session p (input0 q) w1;
                   (exitcode, rd, w3) = run_process e q inp w2;
                   (out, succ) = classify exitcode rd;
                   name = log_name (execution_id q)
               in (case files w3 name of
                     None \<Rightarrow> (Inl (IOError name), w3)
                   | Some text \<Rightarrow>
                       (Inr (get_responce out (elapsed e) text succ 200),
                        remove_file name w3)))"

subsection \<open>Example requests\<close>

text \<open>
  A world with no files and no calls made yet, surroundings whose sidecars both accept
  and whose user function prints one line and ends as given, and a request that names
  only what the handler requires.
\<close>

definition empty_world :: world where
  "empty_world = \<lparr>files = Map.empty, effects = []\<rparr>"

definition example_env :: "user_outcome \<Rightarrow> env" where
  "example_env oc =
     \<lparr>download = (\<lambda>u f t. \<lparr>ok = True, content = ''downloaded''\<rparr>),
      cglimit = (\<lambda>c m pid. \<lparr>ok = True, content = ''limited''\<rparr>),
      getpid = 4242,
      can_open = (\<lambda>name. True),
      user_code = (\<lambda>dir m f args kw.
                     \<lparr>printed = ''hello'', stdout_after = StdoutLog, outcome = oc\<rparr>),
      elapsed = 12\<rparr>"


text \<open>A world in which a file with the name of the log of \<open>e1\<close> is already there.\<close>

definition stale_world :: world where
  "stale_world = \<lparr>files = [''e1.out'' \<mapsto> ''stale''], effects = []\<rparr>"

definition example_params :: params where
  "example_params =
     \<lparr>p_input = None, p_execution_id = Some (Some ''e1''), p_download_url = Some ''http://pkg'',
      p_function_id = Some ''f1'', p_entry = None, p_request_id = None, p_trust_id = None,
      p_auth_url = None, p_username = None, p_password = None, p_token = None,
      p_cpu = Some (Some 100), p_memory_size = Some (Some 1024)\<rparr>"

section \<open>Properties\<close>

subsection \<open>Resolving the entry point\<close>

lemma rsplit1_no_sep: "sep \<notin> set s \<Longrightarrow> rsplit1 sep s = [s]"
proof -
  assume "sep \<notin> set s"
  then have h: "dropWhile (\<lambda>c. c \<noteq> sep) (rev s) = []" by auto
  show ?thesis unfolding rsplit1_def Let_def h by simp
qed

lemma rsplit1_last: "sep \<notin> set f \<Longrightarrow> rsplit1 sep (m @ sep # f) = [m, f]"
  by (auto simp add: rsplit1_def Let_def takeWhile_append dropWhile_append split: list.splits)

lemma resolve_entry_no_dot:
  "s \<noteq> [] \<Longrightarrow> CHR ''.'' \<notin> set s \<Longrightarrow> resolve_entry (Some s) = Inl ValueError"
  by (simp add: resolve_entry_def rsplit1_no_sep)

text \<open>
  C7. A request without \<open>entry\<close> resolves to module \<open>main\<close>, function \<open>main\<close>. An entry
  \<open>m.f\<close>, where \<open>f\<close> holds no dot, is cut at that last dot: module \<open>m\<close> (which may
  hold dots itself), function \<open>f\<close>. The module and function of a parsed request are the
  ones so resolved from its \<open>entry\<close>.
\<close>

theorem entry_point_resolution:
  "resolve_entry None = Inr (''main'', ''main'') \<and>
   (CHR ''.'' \<notin> set f \<longrightarrow> resolve_entry (Some (m @ ''.'' @ f)) = Inr (m, f)) \<and>
   (\<forall>q. parse_request p = Inr q \<longrightarrow>
      resolve_entry (p_entry p) = Inr (function_module q, function_method q))"
  by (auto simp add: resolve_entry_def rsplit1_last parse_request_def
        split: option.splits sum.splits)

theorem entry_point_resolution_witness:
  "resolve_entry None = Inr (''main'', ''main'') \<and>
   resolve_entry (Some ''mod.fn'') = Inr (''mod'', ''fn'') \<and>
   resolve_entry (Some ''pkg.mod.fn'') = Inr (''pkg.mod'', ''fn'') \<and>
   map_sum id (\<lambda>q. (function_module q, function_method q)) (parse_request example_params) =
     Inr (''main'', ''main'') \<and>
   map_sum id (\<lambda>q. (function_module q, function_method q))
     (parse_request (example_params\<lparr>p_entry := Some ''mod.fn''\<rparr>)) = Inr (''mod'', ''fn'')"
proof -
  have a: "resolve_entry None = Inr (''main'', ''main'') \<and>
           resolve_entry (Some ''mod.fn'') = Inr (''mod'', ''fn'')"
    using entry_point_resolution [of "''fn''" "''mod''" example_params] by simp
  have b: "resolve_entry (Some ''pkg.mod.fn'') = Inr (''pkg.mod'', ''fn'')"
    using entry_point_resolution [of "''fn''" "''pkg.mod''" example_params] by simp
  have c: "\<exists>q. parse_request example_params = Inr q"
    by (simp add: parse_request_def example_params_def resolve_entry_def)
  have d: "\<exists>q. parse_request (example_params\<lparr>p_entry := Some ''mod.fn''\<rparr>) = Inr q"
    using a by (simp add: parse_request_def example_params_def)
  from c obtain q where q: "parse_request example_params = Inr q" ..
  from d obtain q' where q': "parse_request (example_params\<lparr>p_entry := Some ''mod.fn''\<rparr>) = Inr q'" ..
  have pe: "p_entry example_params = None"
    by (simp add: example_params_def)
  have "resolve_entry (p_entry example_params) = Inr (function_module q, function_method q)"
    using entry_point_resolution [of "''fn''" "''mod''" example_params] q by blast
  then have e: "function_module q = ''main'' \<and> function_method q = ''main''"
    unfolding pe using a by auto
  have "resolve_entry (p_entry (example_params\<lparr>p_entry := Some ''mod.fn''\<rparr>)) =
          Inr (function_module q', function_method q')"
    using entry_point_resolution [of "''fn''" "''mod''" "example_params\<lparr>p_entry := Some ''mod.fn''\<rparr>"] q'
    by blast
  then have "resolve_entry (Some ''mod.fn'') = Inr (function_module q', function_method q')"
    by simp
  then have f: "function_module q' = ''mod'' \<and> function_method q' = ''fn''"
    using a by auto
  show ?thesis using a b e f by (simp add: q q')
qed

text \<open>
  C10. A non-empty \<open>entry\<close> without a dot makes the handler raise: it returns an
  exception and no response, and the world is as it was, so no collaborator was called
  and no child was started. When the required keys are there, the exception is the
  \<open>ValueError\<close> of the unpacking.
\<close>

theorem entry_without_dot_raises:
  assumes "p_entry p = Some s" and "s \<noteq> []" and "CHR ''.'' \<notin> set s"
  shows "(\<exists>err. execute e p w = (Inl err, w)) \<and>
         (p_execution_id p \<noteq> None \<and> p_cpu p \<noteq> None \<and> p_memory_size p \<noteq> None \<longrightarrow>
            execute e p w = (Inl ValueError, w))"
  using assms
  by (auto simp add: execute_def parse_request_def resolve_entry_no_dot split: option.splits)

theorem entry_without_dot_raises_witness:
  "p_entry (example_params\<lparr>p_entry := Some ''handler''\<rparr>) = Some ''handler'' \<and>
   ''handler'' \<noteq> [] \<and> CHR ''.'' \<notin> set ''handler'' \<and>
   execute (example_env (Returned PNone)) (example_params\<lparr>p_entry := Some ''handler''\<rparr>)
     empty_world = (Inl ValueError, empty_world)"
  using entry_without_dot_raises [of "example_params\<lparr>p_entry := Some ''handler''\<rparr>"
      "''handler''" "example_env (Returned PNone)" empty_world]
  by (simp add: example_params_def)

subsection \<open>The world under the file and call operations\<close>

text \<open>Writes under the size limit: the file holds the first \<open>FSIZE\<close> bytes of all that was written.\<close>

lemma take_cap: "take n (take n xs @ ys) = take n (xs @ ys)"
  by (cases "length xs \<le> n") (simp_all add: min_def)

lemma fits_cap: "ys \<noteq> [] \<Longrightarrow> (length (take n xs @ ys) \<le> n) = (length (xs @ ys) \<le> n)"
  by (cases ys) (auto simp add: min_def)

lemma effects_emit: "effects (emit x w) = effects w @ [x]"
  by (simp add: emit_def)

lemma files_emit: "files (emit x w) = files w"
  by (simp add: emit_def)

lemma effects_open_w: "effects (open_w n w) = effects w"
  by (simp add: open_w_def)

lemma files_open_w: "files (open_w n w) n = Some []"
  by (simp add: open_w_def)

lemma effects_remove_file: "effects (remove_file n w) = effects w"
  by (simp add: remove_file_def)

lemma effects_write_file: "effects (snd (write_file n s w)) = effects w"
  by (simp add: write_file_def Let_def)

lemma effects_print_to: "effects (snd (print_to so n s w)) = effects w"
  by (simp add: print_to_def effects_write_file split: stdout_state.splits)

lemma files_write_file:
  "files w n = Some (take FSIZE t) \<Longrightarrow> files (snd (write_file n s w)) n = Some (take FSIZE (t @ s))"
  by (simp add: write_file_def take_cap del: take_append)

lemma fits_write_file:
  "files w n = Some (take FSIZE t) \<Longrightarrow> s \<noteq> [] \<Longrightarrow>
   fst (write_file n s w) = (length (t @ s) \<le> FSIZE)"
  by (simp add: write_file_def fits_cap del: length_append)

lemma files_print_to:
  "files w n = Some (take FSIZE t) \<Longrightarrow>
   files (snd (print_to so n s w)) n =
     Some (take FSIZE (if so = StdoutLog then t @ s @ [CHR 0x0A] else t))"
  by (cases so) (simp_all add: print_to_def files_write_file)

lemma fits_print_to:
  "files w n = Some (take FSIZE t) \<Longrightarrow>
   fst (print_to so n s w) =
     (so = StdoutElsewhere \<or> so = StdoutLog \<and> length (t @ s @ [CHR 0x0A]) \<le> FSIZE)"
  by (cases so) (simp_all add: print_to_def fits_write_file del: length_append)

lemmas world_simps = effects_emit files_emit effects_write_file effects_print_to effects_open_w
  effects_remove_file files_open_w

subsection \<open>The child process\<close>

lemma invoke_function_refused:
  assumes "\<not> ok (cglimit e (cpu rl) (memory_size rl) (getpid e))"
  shows "invoke_function e eid dir m f arg kw rd rl w =
           (0, rd\<lparr>rd_result := Some (PStr (content (cglimit e (cpu rl) (memory_size rl) (getpid e)))),
                  rd_success := False\<rparr>,
            emit (CgLimit (cpu rl) (memory_size rl) (getpid e)) (emit SetUlimit w))"
  using assms by (simp add: invoke_function_def Let_def)

text \<open>
  The child reaches the call of user code when the limiter accepts, the log can be
  created and the start line fits. From there its result is that of the \<open>try\<close>
  statement on the world \<open>w4\<close> that user code leaves.
\<close>

lemma invoke_function_reached:
  assumes lim: "ok (cglimit e (cpu rl) (memory_size rl) (getpid e))"
    and opened: "can_open e (log_name eid)"
    and start: "length (start_line eid) < FSIZE"
  shows "\<exists>w4. files w4 (log_name eid) =
                 Some (take FSIZE (start_line eid @ [CHR 0x0A] @
                   printed (user_code e dir m f (if truthy arg then [arg] else []) kw))) \<and>
              effects w4 = effects w @ [SetUlimit, CgLimit (cpu rl) (memory_size rl) (getpid e),
                 Invoke dir m f (if truthy arg then [arg] else []) kw] \<and>
              invoke_function e eid dir m f arg kw rd rl w =
                (case outcome (user_code e dir m f (if truthy arg then [arg] else []) kw) of
                   Returned v \<Rightarrow>
                     (if fst (print_to (stdout_after (user_code e dir m f (if truthy arg then [arg] else []) kw))
                               (log_name eid) (finished_line eid) w4) then 0 else 1,
                      rd\<lparr>rd_result := Some v, rd_success := True\<rparr>,
                      snd (print_to (stdout_after (user_code e dir m f (if truthy arg then [arg] else []) kw))
                               (log_name eid) (finished_line eid) w4))
                 | Raised ex \<Rightarrow>
                     (let so = stdout_after (user_code e dir m f (if truthy arg then [arg] else []) kw);
                          tr = print_to so (log_name eid) (exc_trace ex) w4;
                          fin = print_to so (log_name eid) (finished_line eid) (snd tr)
                      in if \<not> fst tr then (1, rd, snd fin)
                         else if is_oserror ex \<and> str_contains ''Resource'' (exc_str ex)
                         then (1, rd, snd fin)
                         else (if fst fin then 0 else 1,
                               rd\<lparr>rd_result := Some (PStr (exc_str ex)), rd_success := False\<rparr>,
                               snd fin))
                 | Exited c \<Rightarrow>
                     (if fst (print_to (stdout_after (user_code e dir m f (if truthy arg then [arg] else []) kw))
                               (log_name eid) (finished_line eid) w4) then c mod 256 else 1,
                      rd,
                      snd (print_to (stdout_after (user_code e dir m f (if truthy arg then [arg] else []) kw))
                               (log_name eid) (finished_line eid) w4))
                 | Killed c \<Rightarrow> (c, rd, w4))"
proof -
  define args where "args = (if truthy arg then [arg] else [])"
  define b where "b = user_code e dir m f args kw"
  define so where "so = stdout_after b"
  let ?w2 = "emit (CgLimit (cpu rl) (memory_size rl) (getpid e)) (emit SetUlimit w)"
  let ?p3 = "print_to StdoutLog (log_name eid) (start_line eid) (open_w (log_name eid) ?w2)"
  define w4 where "w4 = snd (write_file (log_name eid) (printed b)
               (emit (Invoke dir m f args kw) (snd ?p3)))"
  have o: "files (open_w (log_name eid) ?w2) (log_name eid) = Some (take FSIZE [])"
    by (simp add: files_open_w)
  have started: "fst ?p3"
    using start by (simp add: fits_print_to [OF o])
  have f3: "files (snd ?p3) (log_name eid) = Some (take FSIZE (start_line eid @ [CHR 0x0A]))"
    using files_print_to [OF o, of StdoutLog "start_line eid"] by simp
  then have "files (emit (Invoke dir m f args kw) (snd ?p3)) (log_name eid) =
      Some (take FSIZE (start_line eid @ [CHR 0x0A]))"
    by (simp add: files_emit)
  from files_write_file [OF this, of "printed b"]
  have f4: "files w4 (log_name eid) = Some (take FSIZE (start_line eid @ [CHR 0x0A] @ printed b))"
    by (simp add: w4_def)
  have e4: "effects w4 = effects w @ [SetUlimit, CgLimit (cpu rl) (memory_size rl) (getpid e),
                 Invoke dir m f args kw]"
    by (simp add: w4_def world_simps)
  have "invoke_function e eid dir m f arg kw rd rl w =
          (case outcome b of
             Returned v \<Rightarrow>
               (if fst (print_to so (log_name eid) (finished_line eid) w4) then 0 else 1,
                rd\<lparr>rd_result := Some v, rd_success := True\<rparr>,
                snd (print_to so (log_name eid) (finished_line eid) w4))
           | Raised ex \<Rightarrow>
               (if \<not> fst (print_to so (log_name eid) (exc_trace ex) w4) then
                  (1, rd, snd (print_to so (log_name eid) (finished_line eid)
                                 (snd (print_to so (log_name eid) (exc_trace ex) w4))))
                else if is_oserror ex \<and> str_contains ''Resource'' (exc_str ex) then
                  (1, rd, snd (print_to so (log_name eid) (finished_line eid)
                                 (snd (print_to so (log_name eid) (exc_trace ex) w4))))
                else
                  (if fst (print_to so (log_name eid) (finished_line eid)
                             (snd (print_to so (log_name eid) (exc_trace ex) w4))) then 0 else 1,
                   rd\<lparr>rd_result := Some (PStr (exc_str ex)), rd_success := False\<rparr>,
                   snd (print_to so (log_name eid) (finished_line eid)
                          (snd (print_to so (log_name eid) (exc_trace ex) w4)))))
           | Exited c \<Rightarrow>
               (if fst (print_to so (log_name eid) (finished_line eid) w4) then c mod 256 else 1,
                rd, snd (print_to so (log_name eid) (finished_line eid) w4))
           | Killed c \<Rightarrow> (c, rd, w4))"
    unfolding invoke_function_def args_def [symmetric]
    using lim opened started
    by (simp add: Let_def split_beta b_def [symmetric] w4_def [symmetric] so_def [symmetric]
          split del: if_split cong: if_cong user_outcome.case_cong)
  then show ?thesis
    using f4 e4 unfolding so_def b_def args_def Let_def by blast
qed

text \<open>
  What a child that reaches the call leaves: the exit code, the shared dict, the log and
  the calls made. A \<open>print\<close> succeeds when \<open>sys.stdout\<close> is another stream, or is the log
  and all the text so far fits under the limit.
\<close>

lemma invoke_function_result:
  fixes e eid dir m f arg kw rd rl w
  defines "b \<equiv> user_code e dir m f (if truthy arg then [arg] else []) kw"
  defines "r \<equiv> invoke_function e eid dir m f arg kw rd rl w"
  defines "t0 \<equiv> start_line eid @ [CHR 0x0A] @ printed b"
  defines "fits \<equiv> \<lambda>t. stdout_after b = StdoutElsewhere \<or>
                        stdout_after b = StdoutLog \<and> length t \<le> FSIZE"
  assumes lim: "ok (cglimit e (cpu rl) (memory_size rl) (getpid e))"
    and opened: "can_open e (log_name eid)"
    and start: "length (start_line eid) < FSIZE"
  shows "fst r =
           (case outcome b of
              Returned v \<Rightarrow> if fits (t0 @ finished_line eid @ [CHR 0x0A]) then 0 else 1
            | Raised ex \<Rightarrow>
                if fits (t0 @ exc_trace ex @ [CHR 0x0A] @ finished_line eid @ [CHR 0x0A]) \<and>
                   \<not> (is_oserror ex \<and> str_contains ''Resource'' (exc_str ex))
                then 0 else 1
            | Exited c \<Rightarrow> if fits (t0 @ finished_line eid @ [CHR 0x0A]) then c mod 256 else 1
            | Killed c \<Rightarrow> c)"
    and "fst (snd r) =
           (case outcome b of
              Returned v \<Rightarrow> rd\<lparr>rd_result := Some v, rd_success := True\<rparr>
            | Raised ex \<Rightarrow>
                if fits (t0 @ exc_trace ex @ [CHR 0x0A]) \<and>
                   \<not> (is_oserror ex \<and> str_contains ''Resource'' (exc_str ex))
                then rd\<lparr>rd_result := Some (PStr (exc_str ex)), rd_success := False\<rparr>
                else rd
            | Exited c \<Rightarrow> rd
            | Killed c \<Rightarrow> rd)"
    and "files (snd (snd r)) (log_name eid) =
           Some (take FSIZE
             (if stdout_after b = StdoutLog then
                t0 @ (case outcome b of
                        Returned v \<Rightarrow> finished_line eid @ [CHR 0x0A]
                      | Raised ex \<Rightarrow> exc_trace ex @ [CHR 0x0A] @ finished_line eid @ [CHR 0x0A]
                      | Exited c \<Rightarrow> finished_line eid @ [CHR 0x0A]
                      | Killed c \<Rightarrow> [])
              else t0))"
    and "effects (snd (snd r)) =
           effects w @ [SetUlimit, CgLimit (cpu rl) (memory_size rl) (getpid e),
                        Invoke dir m f (if truthy arg then [arg] else []) kw]"
proof -
  let ?log = "log_name eid"
  let ?so = "stdout_after b"
  from invoke_function_reached [OF lim opened start, where dir = dir and m = m and f = f
      and arg = arg and kw = kw and rd = rd and w = w]
  obtain w4 where f4: "files w4 ?log = Some (take FSIZE t0)"
    and e4: "effects w4 = effects w @ [SetUlimit, CgLimit (cpu rl) (memory_size rl) (getpid e),
                 Invoke dir m f (if truthy arg then [arg] else []) kw]"
    and run: "r =
          (case outcome b of
             Returned v \<Rightarrow>
               (if fst (print_to ?so ?log (finished_line eid) w4) then 0 else 1,
                rd\<lparr>rd_result := Some v, rd_success := True\<rparr>,
                snd (print_to ?so ?log (finished_line eid) w4))
           | Raised ex \<Rightarrow>
               (let so = ?so;
                    tr = print_to so ?log (exc_trace ex) w4;
                    fin = print_to so ?log (finished_line eid) (snd tr)
                in if \<not> fst tr then (1, rd, snd fin)
                   else if is_oserror ex \<and> str_contains ''Resource'' (exc_str ex)
                   then (1, rd, snd fin)
                   else (if fst fin then 0 else 1,
                         rd\<lparr>rd_result := Some (PStr (exc_str ex)), rd_success := False\<rparr>,
                         snd fin))
           | Exited c \<Rightarrow>
               (if fst (print_to ?so ?log (finished_line eid) w4) then c mod 256 else 1,
                rd, snd (print_to ?so ?log (finished_line eid) w4))
           | Killed c \<Rightarrow> (c, rd, w4))"
    unfolding b_def r_def t0_def by blast
  have p1: "fst (print_to ?so ?log s w4) = fits (t0 @ s @ [CHR 0x0A])" for s
    unfolding fits_def by (rule fits_print_to [OF f4])
  have f1: "files (snd (print_to ?so ?log s w4)) ?log =
              Some (take FSIZE (if ?so = StdoutLog then t0 @ s @ [CHR 0x0A] else t0))" for s
    by (rule files_print_to [OF f4])
  have p2: "fst (print_to ?so ?log s2 (snd (print_to ?so ?log s w4))) =
              fits (t0 @ s @ [CHR 0x0A] @ s2 @ [CHR 0x0A])" for s s2
    unfolding fits_def using fits_print_to [OF f1, where so = "?so" and s = s2 and s1 = s] by auto
  have f2: "files (snd (print_to ?so ?log s2 (snd (print_to ?so ?log s w4)))) ?log =
              Some (take FSIZE (if ?so = StdoutLog then t0 @ s @ [CHR 0x0A] @ s2 @ [CHR 0x0A] else t0))"
    for s s2
    using files_print_to [OF f1, where so = "?so" and s = s2 and s1 = s] by auto
  have mono: "fits (t0 @ s @ [CHR 0x0A] @ s2 @ [CHR 0x0A]) \<Longrightarrow> fits (t0 @ s @ [CHR 0x0A])" for s s2
    unfolding fits_def by auto
  show "fst r =
           (case outcome b of
              Returned v \<Rightarrow> if fits (t0 @ finished_line eid @ [CHR 0x0A]) then 0 else 1
            | Raised ex \<Rightarrow>
                if fits (t0 @ exc_trace ex @ [CHR 0x0A] @ finished_line eid @ [CHR 0x0A]) \<and>
                   \<not> (is_oserror ex \<and> str_contains ''Resource'' (exc_str ex))
                then 0 else 1
            | Exited c \<Rightarrow> if fits (t0 @ finished_line eid @ [CHR 0x0A]) then c mod 256 else 1
            | Killed c \<Rightarrow> c)"
    using mono by (cases "outcome b") (auto simp add: run p1 p2 Let_def)
  show "fst (snd r) =
           (case outcome b of
              Returned v \<Rightarrow> rd\<lparr>rd_result := Some v, rd_success := True\<rparr>
            | Raised ex \<Rightarrow>
                if fits (t0 @ exc_trace ex @ [CHR 0x0A]) \<and>
                   \<not> (is_oserror ex \<and> str_contains ''Resource'' (exc_str ex))
                then rd\<lparr>rd_result := Some (PStr (exc_str ex)), rd_success := False\<rparr>
                else rd
            | Exited c \<Rightarrow> rd
            | Killed c \<Rightarrow> rd)"
    by (cases "outcome b") (auto simp add: run p1 p2 Let_def)
  show "files (snd (snd r)) ?log =
           Some (take FSIZE
             (if stdout_after b = StdoutLog then
                t0 @ (case outcome b of
                        Returned v \<Rightarrow> finished_line eid @ [CHR 0x0A]
                      | Raised ex \<Rightarrow> exc_trace ex @ [CHR 0x0A] @ finished_line eid @ [CHR 0x0A]
                      | Exited c \<Rightarrow> finished_line eid @ [CHR 0x0A]
                      | Killed c \<Rightarrow> [])
              else t0))"
  proof (cases "outcome b")
    case (Raised ex)
    then have "snd (snd r) = snd (print_to ?so ?log (finished_line eid)
                                    (snd (print_to ?so ?log (exc_trace ex) w4)))"
      by (simp add: run Let_def)
    then show ?thesis
      using Raised by (simp add: f2 del: take_append split del: if_split cong: if_cong)
  qed (simp_all add: run f1 f4 del: take_append split del: if_split cong: if_cong)
  show "effects (snd (snd r)) =
           effects w @ [SetUlimit, CgLimit (cpu rl) (memory_size rl) (getpid e),
                        Invoke dir m f (if truthy arg then [arg] else []) kw]"
    by (cases "outcome b") (auto simp add: run e4 Let_def effects_print_to)
qed

text \<open>A child that cannot create its log, or whose start line does not fit, ends with 1.\<close>

lemma invoke_function_unreached:
  assumes "ok (cglimit e (cpu rl) (memory_size rl) (getpid e))"
    and "\<not> can_open e (log_name eid) \<or> \<not> length (start_line eid) < FSIZE"
  shows "fst (invoke_function e eid dir m f arg kw rd rl w) = 1"
    and "fst (snd (invoke_function e eid dir m f arg kw rd rl w)) = rd"
    and "effects (snd (snd (invoke_function e eid dir m f arg kw rd rl w))) =
           effects w @ [SetUlimit, CgLimit (cpu rl) (memory_size rl) (getpid e)]"
proof -
  let ?w2 = "emit (CgLimit (cpu rl) (memory_size rl) (getpid e)) (emit SetUlimit w)"
  have o: "files (open_w (log_name eid) ?w2) (log_name eid) = Some (take FSIZE [])"
    by (simp add: files_open_w)
  have started: "fst (print_to StdoutLog (log_name eid) (start_line eid) (open_w (log_name eid) ?w2)) =
                   (length (start_line eid) < FSIZE)"
    by (simp add: fits_print_to [OF o]) arith
  show "fst (invoke_function e eid dir m f arg kw rd rl w) = 1"
    using assms started by (auto simp add: invoke_function_def Let_def split_beta)
  show "fst (snd (invoke_function e eid dir m f arg kw rd rl w)) = rd"
    using assms started by (auto simp add: invoke_function_def Let_def split_beta)
  show "effects (snd (snd (invoke_function e eid dir m f arg kw rd rl w))) =
           effects w @ [SetUlimit, CgLimit (cpu rl) (memory_size rl) (getpid e)]"
    using assms started by (auto simp add: invoke_function_def Let_def split_beta world_simps)
qed


lemma invoke_function_log:
  assumes "ok (cglimit e (cpu rl) (memory_size rl) (getpid e))"
    and "can_open e (log_name eid)"
  shows "\<exists>t. files (snd (snd (invoke_function e eid dir m f arg kw rd rl w))) (log_name eid) = Some t"
proof (cases "length (start_line eid) < FSIZE")
  case True
  show ?thesis
    using invoke_function_result(3) [OF assms True, of dir m f arg kw rd w] by blast
next
  case False
  let ?w2 = "emit (CgLimit (cpu rl) (memory_size rl) (getpid e)) (emit SetUlimit w)"
  have o: "files (open_w (log_name eid) ?w2) (log_name eid) = Some (take FSIZE [])"
    by (simp add: files_open_w)
  have started: "\<not> fst (print_to StdoutLog (log_name eid) (start_line eid) (open_w (log_name eid) ?w2))"
    using False by (simp add: fits_print_to [OF o])
  show ?thesis
    using assms started files_print_to [OF o, of StdoutLog "start_line eid"]
    by (simp add: invoke_function_def Let_def split_beta)
qed

lemma invoke_function_effects:
  "effects (snd (snd (invoke_function e eid dir m f arg kw rd rl w))) =
     effects w @ [SetUlimit, CgLimit (cpu rl) (memory_size rl) (getpid e)] @
     (if ok (cglimit e (cpu rl) (memory_size rl) (getpid e)) \<and> can_open e (log_name eid) \<and>
         length (start_line eid) < FSIZE
      then [Invoke dir m f (if truthy arg then [arg] else []) kw] else [])"
proof (cases "ok (cglimit e (cpu rl) (memory_size rl) (getpid e))")
  case False
  then show ?thesis by (simp add: invoke_function_refused world_simps)
next
  case lim: True
  show ?thesis
  proof (cases "can_open e (log_name eid) \<and> length (start_line eid) < FSIZE")
    case True
    then show ?thesis
      using lim invoke_function_result(4) [OF lim, of eid dir m f arg kw rd w] by simp
  next
    case False
    then have "\<not> can_open e (log_name eid) \<or> \<not> length (start_line eid) < FSIZE" by simp
    from invoke_function_unreached(3) [OF lim this, of dir m f arg kw rd w] False
    show ?thesis by auto
  qed
qed

subsection \<open>The child on the example surroundings\<close>


lemma example_lim: "ok (cglimit (example_env oc) c m pid)"
  by (simp add: example_env_def)

lemma example_open: "can_open (example_env oc) n"
  by (simp add: example_env_def)

lemma example_start: "length (start_line (Some ''e1'')) < FSIZE"
  by (simp add: start_line_def FSIZE_def)

lemmas example_result =
  invoke_function_result [OF example_lim example_open example_start]






subsection \<open>Exceptions of user code and the finished line\<close>







subsection \<open>The handler on the example requests\<close>

lemma run_process_eq:
  "run_process e q inp w =
     invoke_function e (execution_id q) (zip_file_dir q) (function_module q) (function_method q)
       (fst (dict_pop ''__function_input'' inp)) (snd (dict_pop ''__function_input'' inp))
       \<lparr>rd_result = None, rd_success = False\<rparr> (limits q) (emit Spawn w)"
  by (simp add: run_process_def split_beta)

lemma run_process_refused:
  assumes "\<not> ok (cglimit e (cpu (limits q)) (memory_size (limits q)) (getpid e))"
  shows "run_process e q inp w2 =
           (0, \<lparr>rd_result = Some (PStr (content (cglimit e (cpu (limits q)) (memory_size (limits q)) (getpid e)))),
                rd_success = False\<rparr>,
            w2\<lparr>effects := effects w2 @
                  [Spawn, SetUlimit, CgLimit (cpu (limits q)) (memory_size (limits q)) (getpid e)]\<rparr>)"
  using assms
  by (simp add: run_process_def split_beta invoke_function_refused emit_def)

text \<open>The handler after a successful fetch, in terms of the result of the child.\<close>

lemma execute_fetched:
  assumes "parse_request p = Inr q"
    and "ok (download e (p_download_url p) (p_function_id p) (p_token p))"
  shows "execute e p w =
           (let r = run_process e q (fst (provide_session p (input0 q)
                        (emit (Download (p_download_url p) (p_function_id p) (p_token p)) w)))
                      (snd (provide_session p (input0 q)
                        (emit (Download (p_download_url p) (p_function_id p) (p_token p)) w)))
            in case files (snd (snd r)) (log_name (execution_id q)) of
                 None \<Rightarrow> (Inl (IOError (log_name (execution_id q))), snd (snd r))
               | Some text \<Rightarrow>
                   (Inr (get_responce (fst (classify (fst r) (fst (snd r)))) (elapsed e) text
                           (snd (classify (fst r) (fst (snd r)))) 200),
                    remove_file (log_name (execution_id q)) (snd (snd r))))"
  using assms by (simp add: execute_def Let_def split_beta)

lemma execute_effects_any:
  assumes "parse_request p = Inr q"
    and "ok (download e (p_download_url p) (p_function_id p) (p_token p))"
  shows "effects (snd (execute e p w)) =
           effects w @ [Download (p_download_url p) (p_function_id p) (p_token p)] @
           (case os_session p of PSession s \<Rightarrow> [BuildSession s] | _ \<Rightarrow> []) @
           [Spawn, SetUlimit, CgLimit (cpu (limits q)) (memory_size (limits q)) (getpid e)] @
           (if ok (cglimit e (cpu (limits q)) (memory_size (limits q)) (getpid e)) \<and>
               can_open e (log_name (execution_id q)) \<and>
               length (start_line (execution_id q)) < FSIZE
            then [Invoke (zip_file_dir q) (function_module q) (function_method q)
              (if truthy (fst (dict_pop ''__function_input''
                    (AList.update ''context'' (PDict [(''os_session'', os_session p)]) (input0 q))))
               then [fst (dict_pop ''__function_input''
                    (AList.update ''context'' (PDict [(''os_session'', os_session p)]) (input0 q)))]
               else [])
              (snd (dict_pop ''__function_input''
                    (AList.update ''context'' (PDict [(''os_session'', os_session p)]) (input0 q))))]
            else [])"
proof -
  let ?w1 = "emit (Download (p_download_url p) (p_function_id p) (p_token p)) w"
  let ?inp = "AList.update ''context'' (PDict [(''os_session'', os_session p)]) (input0 q)"
  let ?w2 = "snd (provide_session p (input0 q) ?w1)"
  have inp: "fst (provide_session p (input0 q) ?w1) = ?inp"
    by (simp add: provide_session_def)
  have w2: "effects ?w2 = effects w @ [Download (p_download_url p) (p_function_id p) (p_token p)] @
           (case os_session p of PSession s \<Rightarrow> [BuildSession s] | _ \<Rightarrow> [])"
    by (simp add: provide_session_def world_simps split: pyval.splits)
  have "effects (snd (execute e p w)) = effects (snd (snd (run_process e q ?inp ?w2)))"
    unfolding execute_fetched [OF assms] inp
    by (simp add: Let_def world_simps split: option.splits)
  then show ?thesis
    unfolding run_process_eq invoke_function_effects
    using w2 by (simp add: world_simps)
qed

lemma execute_effects:
  assumes "parse_request p = Inr q"
    and "ok (download e (p_download_url p) (p_function_id p) (p_token p))"
    and "ok (cglimit e (cpu (limits q)) (memory_size (limits q)) (getpid e))"
    and "can_open e (log_name (execution_id q))"
    and "length (start_line (execution_id q)) < FSIZE"
  shows "effects (snd (execute e p w)) =
           effects w @ [Download (p_download_url p) (p_function_id p) (p_token p)] @
           (case os_session p of PSession s \<Rightarrow> [BuildSession s] | _ \<Rightarrow> []) @
           [Spawn, SetUlimit, CgLimit (cpu (limits q)) (memory_size (limits q)) (getpid e),
            Invoke (zip_file_dir q) (function_module q) (function_method q)
              (if truthy (fst (dict_pop ''__function_input''
                    (AList.update ''context'' (PDict [(''os_session'', os_session p)]) (input0 q))))
               then [fst (dict_pop ''__function_input''
                    (AList.update ''context'' (PDict [(''os_session'', os_session p)]) (input0 q)))]
               else [])
              (snd (dict_pop ''__function_input''
                    (AList.update ''context'' (PDict [(''os_session'', os_session p)]) (input0 q))))]"
  unfolding execute_effects_any [OF assms(1,2)] using assms(3-5) by simp

lemma example_fetched: "ok (download (example_env oc) u f t)"
  by (simp add: example_env_def)


lemma example_parse0:
  "parse_request example_params =
     Inr \<lparr>execution_id = Some ''e1'', zip_file_dir = ''/var/qinling/packages/f1'',
          limits = \<lparr>cpu = Some 100, memory_size = Some 1024\<rparr>, function_module = ''main'',
          function_method = ''main'', input0 = []\<rparr>"
  by (simp add: parse_request_def example_params_def resolve_entry_def)


lemma example_raised:
  "fst (execute (example_env (Raised (PyException False ''boom'' ''Traceback''))) example_params empty_world) =
     Inr \<lparr>r_output = PStr ''boom'', r_duration = 12,
          r_logs = start_line (Some ''e1'') @ [CHR 0x0A] @ ''hello'' @ ''Traceback'' @ [CHR 0x0A] @
                   finished_line (Some ''e1'') @ [CHR 0x0A],
          r_success = False, r_status = 200\<rparr>"
  unfolding execute_fetched [OF example_parse0 example_fetched] run_process_eq
  by (simp add: Let_def example_result classify_def get_responce_def)
     (simp add: example_env_def FSIZE_def start_line_def finished_line_def)



lemma example_effects:
  "effects (snd (execute (example_env oc) (example_params\<lparr>p_input := i\<rparr>) empty_world)) =
     [Download (Some ''http://pkg'') (Some ''f1'') None, Spawn, SetUlimit, CgLimit (Some 100) (Some 1024) 4242,
      Invoke ''/var/qinling/packages/f1'' ''main'' ''main''
        (if truthy (fst (dict_pop ''__function_input''
              (AList.update ''context'' (PDict [(''os_session'', PNone)]) (case i of None \<Rightarrow> [] | Some d \<Rightarrow> d))))
         then [fst (dict_pop ''__function_input''
              (AList.update ''context'' (PDict [(''os_session'', PNone)]) (case i of None \<Rightarrow> [] | Some d \<Rightarrow> d)))]
         else [])
        (snd (dict_pop ''__function_input''
              (AList.update ''context'' (PDict [(''os_session'', PNone)]) (case i of None \<Rightarrow> [] | Some d \<Rightarrow> d))))]"
proof -
  let ?p = "example_params\<lparr>p_input := i\<rparr>"
  let ?q = "\<lparr>execution_id = Some ''e1'', zip_file_dir = ''/var/qinling/packages/f1'',
            limits = \<lparr>cpu = Some 100, memory_size = Some 1024\<rparr>, function_module = ''main'',
            function_method = ''main'', input0 = (case i of None \<Rightarrow> [] | Some d \<Rightarrow> d)\<rparr>"
  have parse: "parse_request ?p = Inr ?q"
    by (simp add: parse_request_def example_params_def resolve_entry_def split: option.splits)
  have fetched: "ok (download (example_env oc) (p_download_url ?p) (p_function_id ?p) (p_token ?p))"
    by (simp add: example_env_def)
  have lim: "ok (cglimit (example_env oc) (cpu (limits ?q)) (memory_size (limits ?q))
                   (getpid (example_env oc)))"
    by (simp add: example_env_def)
  have none: "os_session ?p = PNone"
    by (simp add: os_session_def example_params_def)
  have opened: "can_open (example_env oc) (log_name (execution_id ?q))"
    by (simp add: example_env_def)
  have start: "length (start_line (execution_id ?q)) < FSIZE"
    by (simp add: example_start)
  show ?thesis
    unfolding execute_effects [OF parse fetched lim opened start] none
    by (simp add: example_env_def example_params_def empty_world_def)
qed

lemma refused_run:
  "execute ((example_env oc)\<lparr>cglimit := \<lambda>c m pid. \<lparr>ok = False, content = ''cgroup refused''\<rparr>\<rparr>)
     example_params w =
   (case files w ''e1.out'' of
      None \<Rightarrow> Inl (IOError ''e1.out'')
    | Some text \<Rightarrow> Inr \<lparr>r_output = PStr ''cgroup refused'', r_duration = 12, r_logs = text,
                        r_success = False, r_status = 200\<rparr>,
    (case files w ''e1.out'' of None \<Rightarrow> (\<lambda>x. x) | Some text \<Rightarrow> remove_file ''e1.out'')
      (w\<lparr>effects := effects w @ [Download (Some ''http://pkg'') (Some ''f1'') None, Spawn, SetUlimit,
                                   CgLimit (Some 100) (Some 1024) 4242]\<rparr>))"
proof -
  let ?e = "(example_env oc)\<lparr>cglimit := \<lambda>c m pid. \<lparr>ok = False, content = ''cgroup refused''\<rparr>\<rparr>"
  let ?q = "\<lparr>execution_id = Some ''e1'', zip_file_dir = ''/var/qinling/packages/f1'',
            limits = \<lparr>cpu = Some 100, memory_size = Some 1024\<rparr>, function_module = ''main'',
            function_method = ''main'', input0 = []\<rparr>"
  have lim: "\<not> ok (cglimit ?e (cpu (limits ?q)) (memory_size (limits ?q)) (getpid ?e))"
    by simp
  have get: "getpid ?e = 4242" "elapsed ?e = 12"
    "download ?e = (\<lambda>u f t. \<lparr>ok = True, content = ''downloaded''\<rparr>)"
    "cglimit ?e = (\<lambda>c m pid. \<lparr>ok = False, content = ''cgroup refused''\<rparr>)"
    by (simp_all add: example_env_def)
  show ?thesis
    unfolding execute_def example_parse0
    by (simp add: Let_def run_process_refused [OF lim] provide_session_def os_session_def
          classify_def get_responce_def log_name_def get emit_def split: option.splits)
       (simp add: example_params_def)
qed

subsection \<open>Package fetch and outcome classification\<close>

text \<open>
  C3. For a request that parses: when the download sidecar reports failure the handler
  answers with status 500, the sidecar's content as output, duration 0, empty logs and
  \<open>success\<close> false, and the only call made is the download (no child is started, no
  file is touched); when the download succeeds, every response the handler returns has
  status 200.
\<close>

theorem package_fetch_failure:
  assumes "parse_request p = Inr q"
  shows "(\<not> ok (download e (p_download_url p) (p_function_id p) (p_token p)) \<longrightarrow>
            execute e p w =
              (Inr \<lparr>r_output = PStr (content (download e (p_download_url p) (p_function_id p) (p_token p))),
                    r_duration = 0, r_logs = [], r_success = False, r_status = 500\<rparr>,
               w\<lparr>effects := effects w @ [Download (p_download_url p) (p_function_id p) (p_token p)]\<rparr>)) \<and>
         (ok (download e (p_download_url p) (p_function_id p) (p_token p)) \<longrightarrow>
            (\<forall>r w'. execute e p w = (Inr r, w') \<longrightarrow> r_status r = 200))"
  using assms
  by (auto simp add: execute_def Let_def get_responce_def emit_def split: prod.splits option.splits)

theorem package_fetch_failure_witness:
  "execute ((example_env (Returned PNone))\<lparr>download := \<lambda>u f t. \<lparr>ok = False, content = ''no such package''\<rparr>\<rparr>)
     example_params empty_world =
     (Inr \<lparr>r_output = PStr ''no such package'', r_duration = 0, r_logs = [], r_success = False,
           r_status = 500\<rparr>,
      \<lparr>files = Map.empty, effects = [Download (Some ''http://pkg'') (Some ''f1'') None]\<rparr>) \<and>
   r_status (projr (fst (execute (example_env (Raised (PyException False ''boom'' ''Traceback'')))
                           example_params empty_world))) = 200"
proof -
  let ?bad = "(example_env (Returned PNone))\<lparr>download := \<lambda>u f t. \<lparr>ok = False, content = ''no such package''\<rparr>\<rparr>"
  let ?good = "example_env (Raised (PyException False ''boom'' ''Traceback''))"
  have a: "execute ?bad example_params empty_world =
     (Inr \<lparr>r_output = PStr ''no such package'', r_duration = 0, r_logs = [], r_success = False,
           r_status = 500\<rparr>,
      \<lparr>files = Map.empty, effects = [Download (Some ''http://pkg'') (Some ''f1'') None]\<rparr>)"
    using package_fetch_failure [OF example_parse0, of ?bad empty_world]
    by (simp add: example_env_def example_params_def empty_world_def)
  have run: "execute ?good example_params empty_world =
       (Inr (projr (fst (execute ?good example_params empty_world))),
        snd (execute ?good example_params empty_world))"
    by (simp add: prod_eq_iff example_raised)
  have b: "r_status (projr (fst (execute ?good example_params empty_world))) = 200"
    using package_fetch_failure [OF example_parse0, of ?good empty_world] example_fetched run
    by blast
  show ?thesis using a b by simp
qed



subsection \<open>A limiter that refuses\<close>

text \<open>
  C2 as stated fails. With a limiter that refuses, the child ends with exit code 0, not
  with a non-zero one; where a log of that name is already there the response carries
  the limiter's content as output, which is not the fixed message; and where no such log
  is there the handler returns no response at all.
\<close>

theorem limiter_refusal_counterexample:
  "fst (run_process ((example_env (Returned PNone))\<lparr>cglimit := \<lambda>c m pid. \<lparr>ok = False, content = ''cgroup refused''\<rparr>\<rparr>)
          \<lparr>execution_id = Some ''e1'', zip_file_dir = ''/var/qinling/packages/f1'',
           limits = \<lparr>cpu = Some 100, memory_size = Some 1024\<rparr>, function_module = ''main'',
           function_method = ''main'', input0 = []\<rparr> [] empty_world) = 0 \<and>
   fst (execute ((example_env (Returned PNone))\<lparr>cglimit := \<lambda>c m pid. \<lparr>ok = False, content = ''cgroup refused''\<rparr>\<rparr>)
          example_params (stale_world)) =
     Inr \<lparr>r_output = PStr ''cgroup refused'', r_duration = 12, r_logs = ''stale'',
          r_success = False, r_status = 200\<rparr> \<and>
   PStr ''cgroup refused'' \<noteq> PStr INVOKE_ERROR \<and>
   fst (execute ((example_env (Returned PNone))\<lparr>cglimit := \<lambda>c m pid. \<lparr>ok = False, content = ''cgroup refused''\<rparr>\<rparr>)
          example_params empty_world) = Inl (IOError ''e1.out'')"
  by (simp add: refused_run run_process_refused stale_world_def empty_world_def INVOKE_ERROR_def)

text \<open>
  C2, amended. When the limiter refuses, the child makes the calls \<open>SetUlimit\<close> and
  \<open>CgLimit\<close> and nothing else (the user's code is not called and no file is written),
  stores \<open>success\<close> false with the limiter's content as the result and ends with exit
  code 0; the classification of that is \<open>success\<close> false with the limiter's content as
  output, and every response the handler returns for such a request carries them with
  status 200.
\<close>

theorem limiter_refusal:
  assumes "parse_request p = Inr q"
    and "ok (download e (p_download_url p) (p_function_id p) (p_token p))"
    and "\<not> ok (cglimit e (cpu (limits q)) (memory_size (limits q)) (getpid e))"
  shows "run_process e q inp w2 =
           (0, \<lparr>rd_result = Some (PStr (content (cglimit e (cpu (limits q)) (memory_size (limits q)) (getpid e)))),
                rd_success = False\<rparr>,
            w2\<lparr>effects := effects w2 @
                  [Spawn, SetUlimit, CgLimit (cpu (limits q)) (memory_size (limits q)) (getpid e)]\<rparr>) \<and>
         classify 0 \<lparr>rd_result = Some (PStr (content (cglimit e (cpu (limits q)) (memory_size (limits q)) (getpid e)))),
                     rd_success = False\<rparr> =
           (PStr (content (cglimit e (cpu (limits q)) (memory_size (limits q)) (getpid e))), False) \<and>
         (\<forall>r w'. execute e p w = (Inr r, w') \<longrightarrow>
            r_output r = PStr (content (cglimit e (cpu (limits q)) (memory_size (limits q)) (getpid e))) \<and>
            \<not> r_success r \<and> r_status r = 200)"
  using assms
  by (auto simp add: execute_def Let_def run_process_refused classify_def get_responce_def
        split: prod.splits option.splits)

theorem limiter_refusal_witness:
  "fst (run_process ((example_env (Returned PNone))\<lparr>cglimit := \<lambda>c m pid. \<lparr>ok = False, content = ''cgroup refused''\<rparr>\<rparr>)
          \<lparr>execution_id = Some ''e1'', zip_file_dir = ''/var/qinling/packages/f1'',
           limits = \<lparr>cpu = Some 100, memory_size = Some 1024\<rparr>, function_module = ''main'',
           function_method = ''main'', input0 = []\<rparr> [] empty_world) = 0 \<and>
   r_output (projr (fst (execute
       ((example_env (Returned PNone))\<lparr>cglimit := \<lambda>c m pid. \<lparr>ok = False, content = ''cgroup refused''\<rparr>\<rparr>)
       example_params (stale_world)))) = PStr ''cgroup refused''"
proof -
  let ?e = "(example_env (Returned PNone))\<lparr>cglimit := \<lambda>c m pid. \<lparr>ok = False, content = ''cgroup refused''\<rparr>\<rparr>"
  let ?q = "\<lparr>execution_id = Some ''e1'', zip_file_dir = ''/var/qinling/packages/f1'',
            limits = \<lparr>cpu = Some 100, memory_size = Some 1024\<rparr>, function_module = ''main'',
            function_method = ''main'', input0 = []\<rparr>"
  let ?w = "stale_world"
  have fetched: "ok (download ?e (p_download_url example_params) (p_function_id example_params)
                       (p_token example_params))"
    by (simp add: example_env_def)
  have lim: "\<not> ok (cglimit ?e (cpu (limits ?q)) (memory_size (limits ?q)) (getpid ?e))"
    by simp
  have run: "execute ?e example_params ?w =
               (Inr (projr (fst (execute ?e example_params ?w))), snd (execute ?e example_params ?w))"
    by (simp add: prod_eq_iff refused_run stale_world_def)
  have payload: "content (cglimit ?e (cpu (limits ?q)) (memory_size (limits ?q)) (getpid ?e)) =
                   ''cgroup refused''"
    by simp
  from limiter_refusal [OF example_parse0 fetched lim, of "[]" empty_world ?w] run payload
  show ?thesis by auto
qed

subsection \<open>The session and the arguments of the call\<close>

text \<open>
  C5 as stated fails. For a request without \<open>auth_url\<close> the keyword input the user's
  function is called with holds the key \<open>context\<close>, bound to a dict whose
  \<open>os_session\<close> is \<open>None\<close>.
\<close>

theorem session_injection_counterexample:
  "p_auth_url example_params = None \<and>
   last (effects (snd (execute (example_env (Returned PNone)) example_params empty_world))) =
     Invoke ''/var/qinling/packages/f1'' ''main'' ''main'' []
       [(''context'', PDict [(''os_session'', PNone)])]"
  using example_effects [of "Returned PNone" None]
  by (simp add: example_params_def dict_pop_def)

text \<open>
  C5, amended. The input always gets the key \<open>context\<close>, bound to a dict with the one
  key \<open>os_session\<close>, and the key is still there after \<open>__function_input\<close> is popped.
  For a non-empty \<open>auth_url\<close> the session is built from username, password, auth_url
  and trust_id, with user domain \<open>Default\<close> and \<open>verify\<close> false, and it is the value of
  \<open>os_session\<close>; for a missing or empty \<open>auth_url\<close> no session is built and
  \<open>os_session\<close> is \<open>None\<close>. The user's function is called when the request parses,
  the package is fetched, the limiter accepts and the child can start its log; every
  call of it that the handler leads to has that \<open>context\<close> in its keyword input.
\<close>

theorem session_injection:
  "map_of (fst (provide_session p inp w)) ''context'' = Some (PDict [(''os_session'', os_session p)]) \<and>
   map_of (snd (dict_pop ''__function_input'' (fst (provide_session p inp w)))) ''context'' =
     Some (PDict [(''os_session'', os_session p)]) \<and>
   (\<forall>a. p_auth_url p = Some a \<and> a \<noteq> [] \<longrightarrow>
      os_session p =
        PSession (Session (Password (p_username p) (p_password p) a (p_trust_id p) ''Default'') False) \<and>
      snd (provide_session p inp w) =
        emit (BuildSession
                (Session (Password (p_username p) (p_password p) a (p_trust_id p) ''Default'') False)) w) \<and>
   (p_auth_url p = None \<or> p_auth_url p = Some [] \<longrightarrow>
      os_session p = PNone \<and> snd (provide_session p inp w) = w) \<and>
   (\<forall>q. parse_request p = Inr q \<and>
        ok (download e (p_download_url p) (p_function_id p) (p_token p)) \<and>
        ok (cglimit e (cpu (limits q)) (memory_size (limits q)) (getpid e)) \<and>
        can_open e (log_name (execution_id q)) \<and>
        length (start_line (execution_id q)) < FSIZE \<longrightarrow>
        (\<exists>args kw. last (effects (snd (execute e p w))) =
                      Invoke (zip_file_dir q) (function_module q) (function_method q) args kw \<and>
                    map_of kw ''context'' = Some (PDict [(''os_session'', os_session p)]))) \<and>
   (\<forall>d m f args kw.
        Invoke d m f args kw \<in> set (effects (snd (execute e p w))) \<and>
        Invoke d m f args kw \<notin> set (effects w) \<longrightarrow>
        map_of kw ''context'' = Some (PDict [(''os_session'', os_session p)]))"
proof -
  let ?inp = "AList.update ''context'' (PDict [(''os_session'', os_session p)])"
  have a: "map_of (fst (provide_session p inp w)) ''context'' =
             Some (PDict [(''os_session'', os_session p)])"
    by (simp add: provide_session_def update_conv')
  have b: "map_of (snd (dict_pop ''__function_input'' (fst (provide_session p inp w)))) ''context'' =
             Some (PDict [(''os_session'', os_session p)])" for inp w
    by (simp add: provide_session_def dict_pop_def update_conv' delete_conv')
  have b': "map_of (snd (dict_pop ''__function_input'' (?inp i))) ''context'' =
             Some (PDict [(''os_session'', os_session p)])" for i
    using b [of i w] by (simp add: provide_session_def)
  have c: "os_session p =
        PSession (Session (Password (p_username p) (p_password p) a (p_trust_id p) ''Default'') False) \<and>
      snd (provide_session p inp w) =
        emit (BuildSession
                (Session (Password (p_username p) (p_password p) a (p_trust_id p) ''Default'') False)) w"
    if "p_auth_url p = Some a \<and> a \<noteq> []" for a
    using that by (simp add: provide_session_def os_session_def)
  have d: "os_session p = PNone \<and> snd (provide_session p inp w) = w"
    if "p_auth_url p = None \<or> p_auth_url p = Some []"
    using that by (auto simp add: provide_session_def os_session_def)
  have f: "\<exists>args kw. last (effects (snd (execute e p w))) =
                      Invoke (zip_file_dir q) (function_module q) (function_method q) args kw \<and>
                    map_of kw ''context'' = Some (PDict [(''os_session'', os_session p)])"
    if "parse_request p = Inr q \<and>
        ok (download e (p_download_url p) (p_function_id p) (p_token p)) \<and>
        ok (cglimit e (cpu (limits q)) (memory_size (limits q)) (getpid e)) \<and>
        can_open e (log_name (execution_id q)) \<and>
        length (start_line (execution_id q)) < FSIZE" for q
  proof -
    from that have eff: "last (effects (snd (execute e p w))) =
        Invoke (zip_file_dir q) (function_module q) (function_method q)
              (if truthy (fst (dict_pop ''__function_input'' (?inp (input0 q))))
               then [fst (dict_pop ''__function_input'' (?inp (input0 q)))]
               else [])
              (snd (dict_pop ''__function_input'' (?inp (input0 q))))"
      by (simp add: execute_effects)
    with b' [of "input0 q"] show ?thesis by blast
  qed
  have g: "map_of kw ''context'' = Some (PDict [(''os_session'', os_session p)])"
    if made: "Invoke d m f args kw \<in> set (effects (snd (execute e p w))) \<and>
              Invoke d m f args kw \<notin> set (effects w)" for d m f args kw
  proof (cases "parse_request p")
    case (Inl err)
    then have "snd (execute e p w) = w" by (simp add: execute_def)
    with made show ?thesis by simp
  next
    case (Inr q)
    show ?thesis
    proof (cases "ok (download e (p_download_url p) (p_function_id p) (p_token p))")
      case False
      then have "effects (snd (execute e p w)) =
                   effects w @ [Download (p_download_url p) (p_function_id p) (p_token p)]"
        using Inr by (simp add: execute_def Let_def world_simps)
      with made show ?thesis by auto
    next
      case True
      have "kw = snd (dict_pop ''__function_input'' (?inp (input0 q)))"
        using made unfolding execute_effects_any [OF Inr True]
        by (auto split: pyval.splits if_splits)
      with b' [of "input0 q"] show ?thesis by simp
    qed
  qed
  show ?thesis using a b c d f g by blast
qed

theorem session_injection_witness:
  "os_session (example_params\<lparr>p_trust_id := Some ''t1'', p_auth_url := Some ''http://keystone'',
                              p_username := Some ''alice'', p_password := Some ''secret''\<rparr>) =
     PSession (Session (Password (Some ''alice'') (Some ''secret'') ''http://keystone'' (Some ''t1'')
                          ''Default'') False) \<and>
   (\<exists>args kw.
      last (effects (snd (execute (example_env (Returned PNone))
              (example_params\<lparr>p_trust_id := Some ''t1'', p_auth_url := Some ''http://keystone'',
                               p_username := Some ''alice'', p_password := Some ''secret''\<rparr>)
              empty_world))) =
        Invoke ''/var/qinling/packages/f1'' ''main'' ''main'' args kw \<and>
      map_of kw ''context'' =
        Some (PDict [(''os_session'',
                PSession (Session (Password (Some ''alice'') (Some ''secret'') ''http://keystone''
                                     (Some ''t1'') ''Default'') False))])) \<and>
   os_session (example_params\<lparr>p_auth_url := Some []\<rparr>) = PNone \<and>
   os_session example_params = PNone"
proof -
  let ?p = "example_params\<lparr>p_trust_id := Some ''t1'', p_auth_url := Some ''http://keystone'',
                            p_username := Some ''alice'', p_password := Some ''secret''\<rparr>"
  let ?e = "example_env (Returned PNone)"
  let ?q = "\<lparr>execution_id = Some ''e1'', zip_file_dir = ''/var/qinling/packages/f1'',
            limits = \<lparr>cpu = Some 100, memory_size = Some 1024\<rparr>, function_module = ''main'',
            function_method = ''main'', input0 = []\<rparr>"
  have parse: "parse_request ?p = Inr ?q"
    by (simp add: parse_request_def example_params_def resolve_entry_def)
  have fetched: "ok (download ?e (p_download_url ?p) (p_function_id ?p) (p_token ?p))"
    by (simp add: example_env_def)
  have lim: "ok (cglimit ?e (cpu (limits ?q)) (memory_size (limits ?q)) (getpid ?e))"
    by (simp add: example_env_def)
  have auth: "p_auth_url ?p = Some ''http://keystone'' \<and> ''http://keystone'' \<noteq> []"
    by simp
  have opened: "can_open ?e (log_name (execution_id ?q))"
    by (simp add: example_env_def)
  have start: "length (start_line (execution_id ?q)) < FSIZE"
    by (simp add: example_start)
  have fields: "p_username ?p = Some ''alice''" "p_password ?p = Some ''secret''"
    "p_trust_id ?p = Some ''t1''"
    by simp_all
  have s: "os_session ?p =
     PSession (Session (Password (Some ''alice'') (Some ''secret'') ''http://keystone'' (Some ''t1'')
                          ''Default'') False)"
    using session_injection [of ?p "[]" empty_world ?e] auth fields by metis
  have inv: "\<exists>args kw. last (effects (snd (execute ?e ?p empty_world))) =
                      Invoke (zip_file_dir ?q) (function_module ?q) (function_method ?q) args kw \<and>
                    map_of kw ''context'' = Some (PDict [(''os_session'', os_session ?p)])"
    using session_injection [of ?p "[]" empty_world ?e] parse fetched lim opened start by blast
  have n1: "os_session (example_params\<lparr>p_auth_url := Some []\<rparr>) = PNone"
    using session_injection [of "example_params\<lparr>p_auth_url := Some []\<rparr>" "[]" empty_world ?e]
    by simp
  have n2: "os_session example_params = PNone"
    using session_injection [of example_params "[]" empty_world ?e]
    by (simp add: example_params_def)
  show ?thesis using s inv n1 n2 by simp
qed

text \<open>
  The call the child makes: the value of \<open>__function_input\<close> is the one positional
  argument when it is there and true in Python's sense; the keyword input is the input
  with \<open>context\<close> stored and \<open>__function_input\<close> removed.
\<close>

lemma positional_argument:
  assumes "parse_request p = Inr q"
    and "ok (download e (p_download_url p) (p_function_id p) (p_token p))"
    and "ok (cglimit e (cpu (limits q)) (memory_size (limits q)) (getpid e))"
    and "can_open e (log_name (execution_id q))"
    and "length (start_line (execution_id q)) < FSIZE"
  shows "last (effects (snd (execute e p w))) =
           Invoke (zip_file_dir q) (function_module q) (function_method q)
             (case map_of (input0 q) ''__function_input'' of
                None \<Rightarrow> []
              | Some v \<Rightarrow> if truthy v then [v] else [])
             (AList.delete ''__function_input''
                (AList.update ''context'' (PDict [(''os_session'', os_session p)]) (input0 q)))"
  by (simp add: execute_effects [OF assms] dict_pop_def update_conv' split: option.splits)

text \<open>
  C4 fails on the code. An input whose \<open>__function_input\<close> is 0 is called without a
  positional argument, and the value is in the keyword input no more; the same request
  with 5 gets it as the one positional argument.
\<close>

theorem falsy_function_input_dropped:
  "last (effects (snd (execute (example_env (Returned PNone))
           (example_params\<lparr>p_input := Some [(''__function_input'', PInt 0), (''n'', PInt 1)]\<rparr>)
           empty_world))) =
     Invoke ''/var/qinling/packages/f1'' ''main'' ''main'' []
       [(''n'', PInt 1), (''context'', PDict [(''os_session'', PNone)])] \<and>
   last (effects (snd (execute (example_env (Returned PNone))
           (example_params\<lparr>p_input := Some [(''__function_input'', PInt 5), (''n'', PInt 1)]\<rparr>)
           empty_world))) =
     Invoke ''/var/qinling/packages/f1'' ''main'' ''main'' [PInt 5]
       [(''n'', PInt 1), (''context'', PDict [(''os_session'', PNone)])]"
  by (simp add: example_effects dict_pop_def)

subsection \<open>The log and the response\<close>

text \<open>
  When the limiter accepts and the child can create its log, the log is there after the
  child, however the child ended: the handler returns one response, its logs are the
  text of the file, and the file is removed.
\<close>

lemma logs_returned_and_removed:
  assumes "parse_request p = Inr q"
    and "ok (download e (p_download_url p) (p_function_id p) (p_token p))"
    and "ok (cglimit e (cpu (limits q)) (memory_size (limits q)) (getpid e))"
    and "can_open e (log_name (execution_id q))"
    and "provide_session p (input0 q)
           (emit (Download (p_download_url p) (p_function_id p) (p_token p)) w) = (inp, w2)"
    and "run_process e q inp w2 = (exitcode, rd, w3)"
  shows "\<exists>text. files w3 (log_name (execution_id q)) = Some text \<and>
           execute e p w =
             (Inr (get_responce (fst (classify exitcode rd)) (elapsed e) text
                     (snd (classify exitcode rd)) 200),
              remove_file (log_name (execution_id q)) w3) \<and>
           files (remove_file (log_name (execution_id q)) w3) (log_name (execution_id q)) = None"
proof -
  have "w3 = snd (snd (invoke_function e (execution_id q) (zip_file_dir q) (function_module q)
            (function_method q) (fst (dict_pop ''__function_input'' inp))
            (snd (dict_pop ''__function_input'' inp)) \<lparr>rd_result = None, rd_success = False\<rparr>
            (limits q) (emit Spawn w2)))"
    using assms(6) by (simp add: run_process_eq)
  with invoke_function_log [OF assms(3,4)]
  obtain logged where "files w3 (log_name (execution_id q)) = Some logged"
    by blast
  then show ?thesis
    using assms(1,2,5,6)
    by (simp add: execute_def Let_def split_beta remove_file_def)
qed

text \<open>
  C6 fails on the code. When the limiter refuses, the child ends before it opens the log,
  the handler's \<open>open\<close> raises \<open>IOError\<close>, and the request gets no response.
\<close>

theorem missing_log_no_response:
  "execute ((example_env (Returned PNone))\<lparr>cglimit := \<lambda>c m pid. \<lparr>ok = False, content = ''cgroup refused''\<rparr>\<rparr>)
     example_params empty_world =
     (Inl (IOError ''e1.out''),
      \<lparr>files = Map.empty,
       effects = [Download (Some ''http://pkg'') (Some ''f1'') None, Spawn, SetUlimit,
                  CgLimit (Some 100) (Some 1024) 4242]\<rparr>)"
  by (simp add: refused_run empty_world_def)

end
